theory Spec2Isabelle
  imports Main "HOL-Library.Word"
begin

section \<open>Data model of \<^verbatim>\<open>cmd/root.go\<close>\<close>

text \<open>
  Go's \<^verbatim>\<open>uint\<close> is 32 or 64 bits wide, depending on the platform. It is modelled as
  \<open>'w word\<close> for an arbitrary width \<open>'w\<close>: \<open>+\<close> and \<open>-\<close> wrap modulo \<open>2 ^ LENGTH('w)\<close>
  and \<open><\<close> compares the unsigned values, as the Go operators do. Concrete runs below
  use the 64-bit instance.
\<close>

type_synonym 'w uint = "'w word"

text \<open>\<^verbatim>\<open>time.Duration\<close> counts nanoseconds; the three durations of the program are far
  below the range of its 64 bits, so \<open>int\<close> is used.\<close>

type_synonym duration = int

definition Second :: duration where
  "Second = 1000000000"

definition Minute :: duration where
  "Minute = 60 * Second"

definition conserveSetPath :: string where
  "conserveSetPath = ''/sys/bus/platform/drivers/ideapad_acpi/VPC2004:00/conservation_mode''"

text \<open>\<^verbatim>\<open>type config struct { Threshold uint }\<close>. A \<^verbatim>\<open>*config\<close> is a
  \<open>config option\<close>, \<open>None\<close> being the nil pointer.\<close>

record (overloaded) 'w config =
  Threshold :: "'w uint"

text \<open>A Go \<^verbatim>\<open>error\<close> value, as far as the program looks at it: whether
  \<^verbatim>\<open>errors.Is(err, os.ErrNotExist)\<close> holds, and the text \<^verbatim>\<open>%v\<close> prints.\<close>

record go_error =
  is_not_exist :: bool
  msg :: string

text \<open>What the process does to the outside world, in order: lines written by the
  \<^verbatim>\<open>log\<close> package and by \<^verbatim>\<open>fmt.Println\<close>, calls of \<^verbatim>\<open>os.WriteFile\<close> (path and data) and
  \<^verbatim>\<open>os.MkdirAll\<close>, operations on the ticker and \<^verbatim>\<open>os.Exit\<close>. A file system call is
  recorded when it is made; whether it succeeded shows in the log line that follows.\<close>

datatype effect =
    Log string
  | Print string
  | WriteFile string string
  | MkdirAll string
  | NewTicker duration
  | TickerReset duration
  | TickerStop
  | Exit nat

section \<open>Configuration loading\<close>

text \<open>
  A computation of the start-up code yields the effects it performed and either a
  value, or \<open>None\<close> when the process has exited inside it (\<^verbatim>\<open>log.Fatalf\<close> prints and
  calls \<^verbatim>\<open>os.Exit(1)\<close>, so nothing after it runs, and no deferred call either).
\<close>

type_synonym 'a proc = "effect list \<times> 'a option"

definition ret :: "'a \<Rightarrow> 'a proc" where
  "ret x = ([], Some x)"

definition bind_proc :: "'a proc \<Rightarrow> ('a \<Rightarrow> 'b proc) \<Rightarrow> 'b proc" where
  "bind_proc m f =
     (case m of
        (t, None) \<Rightarrow> (t, None)
      | (t, Some x) \<Rightarrow> (case f x of (t', r) \<Rightarrow> (t @ t', r)))"

definition logCfgIssue :: "string \<Rightarrow> go_error \<Rightarrow> unit proc" where
  "logCfgIssue action err =
     ([Log (''Config issue, can't '' @ action @ '' ----> '' @ msg err), Exit 1], None)"

text \<open>
  The koanf instance \<^verbatim>\<open>k\<close>, the TOML parser and the file system are outside the
  repository. Every function below takes, after the parameters of its source, the
  outcome of each external call it makes: a \<open>go_error option\<close> for a call that returns
  only an error, a sum for a call that returns a value or an error.
\<close>

definition createConfigDir :: "string \<Rightarrow> go_error option \<Rightarrow> bool proc" where
  "createConfigDir path mkdirAll_res =
     bind_proc ([MkdirAll path], Some ()) (\<lambda>_.
       case mkdirAll_res of
         Some err \<Rightarrow> bind_proc (logCfgIssue ''create config file'' err) (\<lambda>_. ret False)
       | None \<Rightarrow> ret True)"

definition createConfigFile ::
  "string \<Rightarrow> go_error + string \<Rightarrow> go_error option \<Rightarrow> bool proc" where
  "createConfigFile path marshal_res writeFile_res =
     (case marshal_res of
        Inl err \<Rightarrow> bind_proc (logCfgIssue ''marshal'' err) (\<lambda>_. ret False)
      | Inr data \<Rightarrow>
          bind_proc ([WriteFile path data], Some ()) (\<lambda>_.
            case writeFile_res of
              Some err \<Rightarrow> bind_proc (logCfgIssue ''write to config file'' err) (\<lambda>_. ret False)
            | None \<Rightarrow> ret True))"

text \<open>\<^verbatim>\<open>loadDefaultConfig\<close> only changes \<^verbatim>\<open>k\<close> and drops the error of its load, so it
  leaves no trace here; \<^verbatim>\<open>&&\<close> does not evaluate its right operand after \<open>False\<close>.\<close>

definition acquireConfig ::
  "string \<Rightarrow> string \<Rightarrow> go_error option \<Rightarrow> go_error + string \<Rightarrow> go_error option \<Rightarrow> bool proc" where
  "acquireConfig dirPath fullPath mkdirAll_res marshal_res writeFile_res =
     bind_proc (createConfigDir dirPath mkdirAll_res) (\<lambda>made.
       if made then createConfigFile fullPath marshal_res writeFile_res else ret False)"

definition handleConfigError ::
  "string \<Rightarrow> string \<Rightarrow> go_error option \<Rightarrow> go_error + string \<Rightarrow> go_error option \<Rightarrow>
   go_error option \<Rightarrow> bool proc" where
  "handleConfigError dirPath fullPath mkdirAll_res marshal_res writeFile_res err =
     (case err of
        Some e \<Rightarrow>
          if \<not> is_not_exist e then bind_proc (logCfgIssue ''load'' e) (\<lambda>_. ret False)
          else bind_proc (acquireConfig dirPath fullPath mkdirAll_res marshal_res writeFile_res)
                 (\<lambda>acquired. if \<not> acquired then ret False else ret True)
      | None \<Rightarrow> ret True)"

text \<open>\<^verbatim>\<open>parseConfig\<close>: \<open>load_res\<close> is what \<^verbatim>\<open>k.Load(provider, parser)\<close> returns and
  \<open>unmarshal_res\<close> what \<^verbatim>\<open>k.Unmarshal("", &cfg)\<close> leaves in \<^verbatim>\<open>cfg\<close>, or its error.\<close>

definition parseConfig ::
  "go_error option \<Rightarrow> (go_error option \<Rightarrow> bool proc) \<Rightarrow> go_error + 'w::len config \<Rightarrow>
   'w config option proc" where
  "parseConfig load_res errHandler unmarshal_res =
     bind_proc (errHandler load_res) (\<lambda>ok.
       if \<not> ok then ret None
       else case unmarshal_res of
              Inl err \<Rightarrow> bind_proc (logCfgIssue ''parse'' err) (\<lambda>_. ret None)
            | Inr cfg \<Rightarrow> ret (Some cfg))"

text \<open>\<^verbatim>\<open>filepath.Join\<close> of two elements; the cleaning of the result (\<^verbatim>\<open>filepath.Clean\<close>)
  is left out, the paths only label the effects.\<close>

definition filepath_Join :: "string \<Rightarrow> string \<Rightarrow> string" where
  "filepath_Join a b = (if a = [] then b else if b = [] then a else a @ ''/'' @ b)"

section \<open>The threshold test\<close>

text \<open>\<^verbatim>\<open>cfg.Threshold\<close> on a nil \<^verbatim>\<open>cfg\<close> is a run-time panic; the arithmetic on
  \<^verbatim>\<open>uint\<close> never panics, it wraps.\<close>

datatype panic = NilDereference

definition inThresholdRange :: "'w::len uint \<Rightarrow> 'w config option \<Rightarrow> panic + bool" where
  "inThresholdRange capacity cfg =
     (case cfg of
        None \<Rightarrow> Inl NilDereference
      | Some c \<Rightarrow> Inr (capacity > Threshold c - 1 \<and> capacity < Threshold c + 1))"

section \<open>The daemon loop\<close>

datatype ticker_state = NoTicker | Ticking duration | Stopped

datatype status = Running | Returned | Exited | Panicked

text \<open>
  The state of \<^verbatim>\<open>runDaemon\<close>: the variable \<^verbatim>\<open>cfg\<close> that the watch callback assigns,
  the local \<^verbatim>\<open>prevCapacity\<close>, the ticker with its current period, the stack of deferred
  calls (most recent first), the effects so far, and whether the function is still in
  its loop, has returned, or the process has exited or panicked.
\<close>

record (overloaded) 'w daemon =
  cfg :: "'w config option"
  prevCapacity :: "'w uint"
  ticker :: ticker_state
  defers :: "effect list"
  trace :: "effect list"
  status :: status

definition perform :: "effect \<Rightarrow> 'w daemon \<Rightarrow> 'w daemon" where
  "perform e s =
     s\<lparr>ticker := (case e of
                    NewTicker d \<Rightarrow> Ticking d
                  | TickerReset d \<Rightarrow> Ticking d
                  | TickerStop \<Rightarrow> Stopped
                  | _ \<Rightarrow> ticker s),
       trace := trace s @ [e]\<rparr>"

definition performs :: "effect list \<Rightarrow> 'w daemon \<Rightarrow> 'w daemon" where
  "performs es s = fold perform es s"

text \<open>Leaving the function runs the deferred calls, last deferred first. A panic
  unwinds the same way before the process dies.\<close>

definition returnFrom :: "'w daemon \<Rightarrow> 'w daemon" where
  "returnFrom s = (performs (defers s) s)\<lparr>defers := [], status := Returned\<rparr>"

definition panicFrom :: "'w daemon \<Rightarrow> 'w daemon" where
  "panicFrom s = (performs (defers s) s)\<lparr>defers := [], status := Panicked\<rparr>"

text \<open>\<^verbatim>\<open>setConservationMode\<close>: \<open>writeFile_res\<close> is the outcome of \<^verbatim>\<open>os.WriteFile\<close>.\<close>

definition setConservationMode :: "bool \<Rightarrow> go_error option \<Rightarrow> effect list" where
  "setConservationMode b writeFile_res =
     (let enabled = (if b then ''1'' else ''0'')
      in [WriteFile conserveSetPath enabled,
          (case writeFile_res of
             Some err \<Rightarrow> Log (''can't change conservation mode: '' @ msg err)
           | None \<Rightarrow> Log (''Changed conservation mode to: '' @ enabled))])"

text \<open>
  The \<^verbatim>\<open>case <-ticker.C\<close> branch. \<open>level_res\<close> is what \<^verbatim>\<open>battery.Level()\<close> returns,
  \<open>charging_res\<close> the pair that \<^verbatim>\<open>battery.IsCharging()\<close> would return and
  \<open>writeFile_res\<close> the outcome of the write to the control file; the last two are
  only looked at where the source makes the call. The conversion \<^verbatim>\<open>uint(c)\<close> of an
  integer keeps its value modulo \<open>2 ^ LENGTH('w)\<close>, which is \<open>word_of_int\<close>.
\<close>

definition tick ::
  "go_error + int \<Rightarrow> bool \<times> go_error option \<Rightarrow> go_error option \<Rightarrow>
   'w::len daemon \<Rightarrow> 'w daemon" where
  "tick level_res charging_res writeFile_res s =
     (case level_res of
        Inl err \<Rightarrow> perform (Log (''Error reading battery capacity: '' @ msg err)) s
      | Inr c \<Rightarrow>
          let capacity = word_of_int c in
          if capacity = prevCapacity s then s
          else
            let s1 = s\<lparr>prevCapacity := capacity\<rparr>;
                charging = fst charging_res;
                s2 = (case snd charging_res of
                        Some err \<Rightarrow>
                          perform (Log (''Error checking battery charging status: '' @ msg err)) s1
                      | None \<Rightarrow> s1)
            in case inThresholdRange capacity (cfg s2) of
                 Inl p \<Rightarrow> panicFrom s2
               | Inr inRange \<Rightarrow>
                   if inRange \<and> charging then
                     performs (setConservationMode True writeFile_res)
                       (perform (TickerReset (1 * Second)) s2)
                   else if \<not> charging then
                     perform (TickerReset (Minute * 5))
                       (performs (setConservationMode False writeFile_res) s2)
                   else
                     performs (setConservationMode True writeFile_res)
                       (perform (TickerReset (Minute * 5)) s2))"

text \<open>
  The callback given to \<^verbatim>\<open>provider.Watch\<close>, run with the watcher's error \<open>err\<close>. It
  replaces \<^verbatim>\<open>k\<close> by a fresh koanf instance, which shows here only in what the two
  external calls of \<^verbatim>\<open>parseConfig\<close> answer, and parses with a handler that accepts every
  load error without logging it. The callback runs on the watcher's goroutine; it is
  taken to run between two iterations of the loop.
\<close>

definition watchCallback ::
  "go_error option \<Rightarrow> go_error option \<Rightarrow> go_error + 'w::len config \<Rightarrow>
   'w daemon \<Rightarrow> 'w daemon" where
  "watchCallback err load_res unmarshal_res s =
     (case err of
        Some e \<Rightarrow> perform (Log (''Error in config Watch: '' @ msg e)) s
      | None \<Rightarrow>
          let s1 = perform (Log ''Config changed, reloading!'') s
          in case parseConfig load_res (\<lambda>err. ret True) unmarshal_res of
               (t, None) \<Rightarrow> (performs t s1)\<lparr>status := Exited\<rparr>
             | (t, Some c) \<Rightarrow> (performs t s1)\<lparr>cfg := c\<rparr>)"

text \<open>What the loop can receive: a signal on \<^verbatim>\<open>sigChan\<close>, a tick of the ticker, or a
  call of the watch callback, each with the outcomes of the external calls it leads to
  (\<open>'c\<close> is the type of the configuration that \<^verbatim>\<open>k.Unmarshal\<close> fills in).\<close>

datatype 'c event =
    Signal
  | Tick "go_error + int" "bool \<times> go_error option" "go_error option"
  | ConfigWatch "go_error option" "go_error option" "go_error + 'c"

fun select :: "'w::len config event \<Rightarrow> 'w daemon \<Rightarrow> 'w daemon" where
  "select Signal s = returnFrom s"
| "select (Tick level_res charging_res writeFile_res) s =
     tick level_res charging_res writeFile_res s"
| "select (ConfigWatch err load_res unmarshal_res) s =
     watchCallback err load_res unmarshal_res s"

text \<open>The \<^verbatim>\<open>for\<close> loop over the events that arrive; it stops consuming them once the
  function has returned or the process is gone.\<close>

fun loop :: "'w::len config event list \<Rightarrow> 'w daemon \<Rightarrow> 'w daemon" where
  "loop [] s = s"
| "loop (e # es) s = (if status s = Running then loop es (select e s) else s)"

text \<open>\<^verbatim>\<open>runDaemon\<close> up to the loop: \<open>watch_res\<close> is what \<^verbatim>\<open>provider.Watch\<close> returns.\<close>

definition enterDaemon :: "go_error option \<Rightarrow> 'w::len config option \<Rightarrow> 'w daemon" where
  "enterDaemon watch_res cfg0 =
     (let s0 = \<lparr>cfg = cfg0, prevCapacity = 0, ticker = NoTicker, defers = [],
                trace = [], status = Running\<rparr>
      in case watch_res of
           Some err \<Rightarrow> returnFrom (perform (Log (''Config watch error: '' @ msg err)) s0)
         | None \<Rightarrow>
             let s1 = perform (NewTicker Minute) s0;
                 s2 = s1\<lparr>defers := TickerStop # defers s1\<rparr>;
                 s3 = s2\<lparr>defers := Log ''Batheart has been shut down'' # defers s2\<rparr>;
                 s4 = s3\<lparr>prevCapacity := 0\<rparr>
             in perform (Log ''Batheart have been enabled'') s4)"

definition runDaemon ::
  "go_error option \<Rightarrow> 'w::len config option \<Rightarrow> 'w config event list \<Rightarrow> 'w daemon" where
  "runDaemon watch_res cfg0 events = loop events (enterDaemon watch_res cfg0)"

section \<open>Start-up\<close>

text \<open>The outcomes of the external calls of \<^verbatim>\<open>Execute\<close> and of the functions it calls.\<close>

record (overloaded) 'w environment =
  os_UserConfigDir :: "go_error + string"
  k_Load :: "go_error option"
  os_MkdirAll :: "go_error option"
  k_Marshal :: "go_error + string"
  os_WriteFile :: "go_error option"
  k_Unmarshal :: "go_error + 'w config"
  provider_Watch :: "go_error option"

text \<open>\<^verbatim>\<open>Execute\<close> up to the call of \<^verbatim>\<open>runDaemon\<close>: the \<^verbatim>\<open>cfg\<close> it passes on.\<close>

definition loadConfig :: "'w::len environment \<Rightarrow> 'w config option proc" where
  "loadConfig env =
     bind_proc
       (case os_UserConfigDir env of
          Inl err \<Rightarrow> bind_proc (logCfgIssue ''obtain user config dir'' err) (\<lambda>_. ret [])
        | Inr configHome \<Rightarrow> ret configHome)
       (\<lambda>configHome.
          let dirPath = filepath_Join configHome ''batheart'';
              fullPath = filepath_Join dirPath ''config.toml''
          in bind_proc
               (parseConfig (k_Load env)
                  (handleConfigError dirPath fullPath
                     (os_MkdirAll env) (k_Marshal env) (os_WriteFile env))
                  (k_Unmarshal env))
               (\<lambda>cfg. bind_proc
                  (if cfg = None then ([Print ''Using default config''], Some ()) else ret ())
                  (\<lambda>_. ret cfg)))"

definition Execute :: "'w::len environment \<Rightarrow> 'w config event list \<Rightarrow> effect list \<times> status" where
  "Execute env events =
     (case loadConfig env of
        (t, None) \<Rightarrow> (t, Exited)
      | (t, Some c) \<Rightarrow>
          (let d = runDaemon (provider_Watch env) c events in (t @ trace d, status d)))"

section \<open>An invariant of the running loop\<close>

text \<open>While the loop runs after a successful watch registration, the two deferred calls
  are still pending and neither has been performed yet.\<close>

definition shutdown_pending :: "'w daemon \<Rightarrow> bool" where
  "shutdown_pending s \<longleftrightarrow>
     defers s = [Log ''Batheart has been shut down'', TickerStop]
     \<and> TickerStop \<notin> set (trace s)
     \<and> Log ''Batheart has been shut down'' \<notin> set (trace s)"


section \<open>Auxiliary facts\<close>

subsection \<open>The open band on machine words\<close>

lemma open_band_iff:
  fixes c t :: "'w::len word"
  shows "(t - 1 < c \<and> c < t + 1) \<longleftrightarrow> (c = t \<and> t \<noteq> 0 \<and> t \<noteq> - 1)"
proof
  assume band: "t - 1 < c \<and> c < t + 1"
  then have "t \<le> c" and "c \<le> t"
    by (simp_all add: dec_less_imp_less_eq less_inc_imp_less_eq)
  then have "c = t" by simp
  moreover have "t \<noteq> 0" using band by auto
  moreover have "t \<noteq> - 1" using band by auto
  ultimately show "c = t \<and> t \<noteq> 0 \<and> t \<noteq> - 1" by simp
next
  assume eq: "c = t \<and> t \<noteq> 0 \<and> t \<noteq> - 1"
  then have "\<not> t \<le> t - 1" and "\<not> t + 1 \<le> t"
    by (simp_all add: less_eq_dec_iff inc_less_eq_iff)
  then have "t - 1 < t" and "t < t + 1"
    by (simp_all only: not_le)
  with eq show "t - 1 < c \<and> c < t + 1" by simp
qed

lemma inThresholdRange_Some:
  "inThresholdRange capacity (Some c) =
     Inr (capacity = Threshold c \<and> Threshold c \<noteq> 0 \<and> Threshold c \<noteq> - 1)"
  by (simp add: inThresholdRange_def open_band_iff)

subsection \<open>Effects on the state\<close>

lemma perform_Log [simp]: "perform (Log m) s = s\<lparr>trace := trace s @ [Log m]\<rparr>"
  by (simp add: perform_def)

lemma perform_TickerReset [simp]:
  "perform (TickerReset d) s = s\<lparr>ticker := Ticking d, trace := trace s @ [TickerReset d]\<rparr>"
  by (simp add: perform_def)

lemma perform_fields [simp]:
  "trace (perform e s) = trace s @ [e]"
  "defers (perform e s) = defers s"
  "status (perform e s) = status s"
  "cfg (perform e s) = cfg s"
  "prevCapacity (perform e s) = prevCapacity s"
  by (simp_all add: perform_def)

lemma performs_fields [simp]:
  "trace (performs es s) = trace s @ es"
  "defers (performs es s) = defers s"
  "status (performs es s) = status s"
  "cfg (performs es s) = cfg s"
  "prevCapacity (performs es s) = prevCapacity s"
  unfolding performs_def by (induction es arbitrary: s) simp_all

lemma performs_setConservationMode:
  "performs (setConservationMode b w) s = s\<lparr>trace := trace s @ setConservationMode b w\<rparr>"
  by (simp add: performs_def perform_def setConservationMode_def Let_def split: option.splits)

lemma setConservationMode_writes:
  "WriteFile conserveSetPath (if b then ''1'' else ''0'') \<in> set (setConservationMode b w)"
  "WriteFile conserveSetPath (if b then ''0'' else ''1'') \<notin> set (setConservationMode b w)"
  by (simp_all add: setConservationMode_def Let_def split: option.splits)

lemma setConservationMode_no_shutdown:
  "TickerStop \<notin> set (setConservationMode b w)"
  "Log ''Batheart has been shut down'' \<notin> set (setConservationMode b w)"
  by (simp_all add: setConservationMode_def Let_def split: option.splits)

lemma loop_stopped: "status s \<noteq> Running \<Longrightarrow> loop es s = s"
  by (cases es) simp_all

lemma enterDaemon_watching:
  "enterDaemon None cfg0 =
     \<lparr>cfg = cfg0, prevCapacity = 0, ticker = Ticking Minute,
      defers = [Log ''Batheart has been shut down'', TickerStop],
      trace = [NewTicker Minute, Log ''Batheart have been enabled''], status = Running\<rparr>"
  by (simp add: enterDaemon_def perform_def Let_def)

lemma enterDaemon_watch_failed:
  "enterDaemon (Some err) cfg0 =
     \<lparr>cfg = cfg0, prevCapacity = 0, ticker = NoTicker, defers = [],
      trace = [Log (''Config watch error: '' @ msg err)], status = Returned\<rparr>"
  by (simp add: enterDaemon_def returnFrom_def Let_def performs_def)

text \<open>Unfolding everything evaluates a run on concrete events.\<close>

lemmas run_simps = runDaemon_def enterDaemon_def tick_def inThresholdRange_def perform_def
  performs_def setConservationMode_def returnFrom_def watchCallback_def parseConfig_def
  bind_proc_def ret_def logCfgIssue_def Let_def

subsection \<open>The configuration pointer stays non-nil\<close>

lemma tick_keeps_cfg:
  assumes "cfg s = Some c"
  shows "cfg (tick l ch w s) = Some c \<and> status (tick l ch w s) = status s
    \<and> defers (tick l ch w s) = defers s"
  using assms
  by (simp add: tick_def inThresholdRange_Some Let_def split: sum.splits option.splits)

lemma parseConfig_accepting:
  "parseConfig l (\<lambda>err. ret True) u =
     (case u of
        Inl err \<Rightarrow>
          ([Log (''Config issue, can't '' @ ''parse'' @ '' ----> '' @ msg err), Exit 1], None)
      | Inr c \<Rightarrow> ([], Some (Some c)))"
  by (simp add: parseConfig_def bind_proc_def ret_def logCfgIssue_def split: sum.splits)

lemma watchCallback_keeps_cfg:
  assumes "cfg s \<noteq> None"
  shows "cfg (watchCallback e l u s) \<noteq> None
    \<and> (status (watchCallback e l u s) = status s \<or> status (watchCallback e l u s) = Exited)
    \<and> defers (watchCallback e l u s) = defers s"
  using assms
  by (simp add: watchCallback_def parseConfig_accepting split: option.splits sum.splits)

lemma loop_never_panics:
  "cfg s \<noteq> None \<Longrightarrow> status s \<noteq> Panicked \<Longrightarrow> status (loop es s) \<noteq> Panicked"
proof (induction es arbitrary: s)
  case Nil
  then show ?case by simp
next
  case (Cons e es)
  show ?case
  proof (cases "status s = Running")
    case False
    with Cons.prems show ?thesis by simp
  next
    case True
    show ?thesis
    proof (cases e)
      case Signal
      then show ?thesis using True by (simp add: returnFrom_def loop_stopped)
    next
      case (Tick l ch w)
      from Cons.prems obtain c where c: "cfg s = Some c" by auto
      from tick_keeps_cfg [OF c, of l ch w] Cons.prems(2)
      have "cfg (tick l ch w s) \<noteq> None" and "status (tick l ch w s) \<noteq> Panicked"
        by simp_all
      then show ?thesis using True Tick Cons.IH by simp
    next
      case (ConfigWatch err l u)
      from watchCallback_keeps_cfg [OF Cons.prems(1), of err l u] Cons.prems(2)
      have "cfg (watchCallback err l u s) \<noteq> None"
        and "status (watchCallback err l u s) \<noteq> Panicked"
        by auto
      then show ?thesis using True ConfigWatch Cons.IH by simp
    qed
  qed
qed

lemma handleConfigError_True:
  "handleConfigError d f m ma w e = (t, Some ok) \<Longrightarrow> ok"
  by (auto simp: handleConfigError_def acquireConfig_def createConfigDir_def
      createConfigFile_def bind_proc_def ret_def logCfgIssue_def
      split: option.splits sum.splits if_splits prod.splits)

lemma parseConfig_not_nil:
  assumes "\<And>e t ok. h e = (t, Some ok) \<Longrightarrow> ok"
  shows "parseConfig l h u \<noteq> (t, Some None)"
proof
  assume nil: "parseConfig l h u = (t, Some None)"
  obtain t1 r1 where h: "h l = (t1, r1)" by (cases "h l")
  show False
  proof (cases r1)
    case None
    with h nil show False by (simp add: parseConfig_def bind_proc_def)
  next
    case (Some ok)
    with h assms have "ok" by blast
    with h Some nil show False
      by (auto simp: parseConfig_def bind_proc_def ret_def logCfgIssue_def split: sum.splits)
  qed
qed

lemma loadConfig_not_nil: "loadConfig env \<noteq> (t, Some None)"
proof
  assume nil: "loadConfig env = (t, Some None)"
  show False
  proof (cases "os_UserConfigDir env")
    case (Inl err)
    with nil show False
      by (simp add: loadConfig_def bind_proc_def logCfgIssue_def)
  next
    case (Inr configHome)
    define h where "h = handleConfigError (filepath_Join configHome ''batheart'')
      (filepath_Join (filepath_Join configHome ''batheart'') ''config.toml'')
      (os_MkdirAll env) (k_Marshal env) (os_WriteFile env)"
    obtain t1 r1 where p: "parseConfig (k_Load env) h (k_Unmarshal env) = (t1, r1)"
      by (cases "parseConfig (k_Load env) h (k_Unmarshal env)")
    have "r1 \<noteq> Some None"
      using parseConfig_not_nil [of h "k_Load env" "k_Unmarshal env" t1] p
        handleConfigError_True
      unfolding h_def by blast
    with nil Inr p show False
      unfolding h_def [symmetric]
      by (auto simp: loadConfig_def bind_proc_def ret_def Let_def h_def [symmetric]
          split: option.splits if_splits)
  qed
qed

lemma handleConfigError_exits:
  "handleConfigError d f m ma w e = (t, None) \<Longrightarrow> t \<noteq> [] \<and> last t = Exit 1"
  by (auto simp: handleConfigError_def acquireConfig_def createConfigDir_def
      createConfigFile_def bind_proc_def ret_def logCfgIssue_def
      split: option.splits sum.splits if_splits prod.splits)

lemma parseConfig_exits:
  assumes "\<And>e t. h e = (t, None) \<Longrightarrow> t \<noteq> [] \<and> last t = Exit 1"
    and "parseConfig l h u = (t, None)"
  shows "t \<noteq> [] \<and> last t = Exit 1"
proof -
  obtain t1 r1 where h: "h l = (t1, r1)" by (cases "h l")
  show ?thesis
  proof (cases r1)
    case None
    with h assms(2) have "t = t1" by (simp add: parseConfig_def bind_proc_def)
    with h None assms(1) show ?thesis by blast
  next
    case (Some ok)
    with h assms(2) show ?thesis
      by (auto simp: parseConfig_def bind_proc_def ret_def logCfgIssue_def
          split: sum.splits if_splits)
  qed
qed

lemma loadConfig_exits:
  assumes "loadConfig env = (t, None)"
  shows "t \<noteq> [] \<and> last t = Exit 1"
proof (cases "os_UserConfigDir env")
  case (Inl err)
  with assms show ?thesis
    by (auto simp: loadConfig_def bind_proc_def logCfgIssue_def)
next
  case (Inr configHome)
  define h where "h = handleConfigError (filepath_Join configHome ''batheart'')
    (filepath_Join (filepath_Join configHome ''batheart'') ''config.toml'')
    (os_MkdirAll env) (k_Marshal env) (os_WriteFile env)"
  obtain t1 r1 where p: "parseConfig (k_Load env) h (k_Unmarshal env) = (t1, r1)"
    by (cases "parseConfig (k_Load env) h (k_Unmarshal env)")
  from assms Inr p have "r1 = None \<and> t = t1"
    unfolding h_def [symmetric]
    by (auto simp: loadConfig_def bind_proc_def ret_def Let_def h_def [symmetric]
        split: option.splits if_splits)
  with p have "parseConfig (k_Load env) h (k_Unmarshal env) = (t, None)" by simp
  then show ?thesis
    using handleConfigError_exits unfolding h_def by (rule parseConfig_exits [rotated])
qed

subsection \<open>The deferred calls stay pending while the loop runs\<close>

lemma tick_shutdown_pending:
  assumes "shutdown_pending s" and "status (tick l ch w s) = Running"
  shows "shutdown_pending (tick l ch w s)"
proof (cases l)
  case (Inl err)
  with assms(1) show ?thesis by (simp add: tick_def shutdown_pending_def)
next
  case (Inr n)
  show ?thesis
  proof (cases "word_of_int n = prevCapacity s")
    case True
    with Inr assms(1) show ?thesis by (simp add: tick_def)
  next
    case False
    show ?thesis
    proof (cases "cfg s")
      case None
      with Inr False assms(2) show ?thesis
        by (simp add: tick_def inThresholdRange_def panicFrom_def Let_def split: option.splits)
    next
      case (Some c)
      with Inr False assms(1) show ?thesis
        by (simp add: tick_def inThresholdRange_Some shutdown_pending_def
            setConservationMode_no_shutdown Let_def split: option.splits)
    qed
  qed
qed

lemma tick_not_Returned:
  "status s = Running \<Longrightarrow> status (tick l ch w s) \<noteq> Returned"
  by (simp add: tick_def Let_def panicFrom_def split: sum.splits option.splits)

lemma watchCallback_shutdown_pending:
  assumes "shutdown_pending s"
  shows "shutdown_pending (watchCallback e l u s)"
  using assms
  by (simp add: shutdown_pending_def watchCallback_def parseConfig_accepting
      split: sum.splits option.splits)

lemma watchCallback_not_Returned:
  "status s = Running \<Longrightarrow> status (watchCallback e l u s) \<noteq> Returned"
  by (simp add: watchCallback_def parseConfig_accepting split: sum.splits option.splits)

lemma returnFrom_shutdown_pending:
  assumes "shutdown_pending s"
  shows "trace (returnFrom s) = trace s @ [Log ''Batheart has been shut down'', TickerStop]"
  using assms by (simp add: shutdown_pending_def returnFrom_def)

lemma loop_returns_after_shutdown:
  assumes "shutdown_pending s" and "status s = Running" and "status (loop es s) = Returned"
  shows "\<exists>pre. trace (loop es s) = pre @ [Log ''Batheart has been shut down'', TickerStop]
           \<and> TickerStop \<notin> set pre \<and> Log ''Batheart has been shut down'' \<notin> set pre"
  using assms
proof (induction es arbitrary: s)
  case Nil
  then show ?case by simp
next
  case (Cons e es)
  let ?s' = "select e s"
  from Cons.prems have run: "loop (e # es) s = loop es ?s'" by simp
  show ?case
  proof (cases e)
    case Signal
    then have "loop (e # es) s = returnFrom s"
      using run by (simp add: loop_stopped returnFrom_def)
    with returnFrom_shutdown_pending [OF Cons.prems(1)] Cons.prems(1)
    show ?thesis by (auto simp: shutdown_pending_def)
  next
    case (Tick l ch w)
    show ?thesis
    proof (cases "status ?s' = Running")
      case True
      with Tick tick_shutdown_pending [OF Cons.prems(1), of l ch w]
      have "shutdown_pending ?s'" by simp
      from Cons.IH [OF this True] Cons.prems(3) run show ?thesis by simp
    next
      case False
      then have "loop es ?s' = ?s'" by (rule loop_stopped)
      with run Cons.prems(3) Tick tick_not_Returned [OF Cons.prems(2), of l ch w]
      show ?thesis by simp
    qed
  next
    case (ConfigWatch err l u)
    show ?thesis
    proof (cases "status ?s' = Running")
      case True
      from ConfigWatch watchCallback_shutdown_pending [OF Cons.prems(1), of err l u]
      have "shutdown_pending ?s'" by simp
      from Cons.IH [OF this True] Cons.prems(3) run show ?thesis by simp
    next
      case False
      then have "loop es ?s' = ?s'" by (rule loop_stopped)
      with run Cons.prems(3) ConfigWatch
        watchCallback_not_Returned [OF Cons.prems(2), of err l u]
      show ?thesis by simp
    qed
  qed
qed

section \<open>The claims\<close>

subsection \<open>The decision of a poll tick\<close>

text \<open>
  Claim C1. A tick whose capacity is read successfully and equals \<^verbatim>\<open>prevCapacity\<close> is
  skipped, whatever the threshold, the charging value and the outcome a write would
  have: the state after the tick is the state before it, so nothing is added to the
  trace (no write to the control file, no reset of the ticker), the ticker keeps its
  period and \<^verbatim>\<open>prevCapacity\<close> its value.
\<close>

theorem tick_skips_unchanged_capacity:
  assumes "word_of_int c = prevCapacity s"
  shows "tick (Inr c) charging_res write_res s = s
    \<and> trace (tick (Inr c) charging_res write_res s) = trace s
    \<and> ticker (tick (Inr c) charging_res write_res s) = ticker s
    \<and> select (Tick (Inr c) charging_res write_res) s = s"
  using assms by (simp add: tick_def)

text \<open>
  Witness for C1: the second tick at 50 percent with threshold 80 while charging.
\<close>

theorem tick_skips_unchanged_capacity_witness:
  "word_of_int 50 =
     prevCapacity (runDaemon None (Some \<lparr>Threshold = 80 :: 64 word\<rparr>)
       [Tick (Inr 50) (True, None) None])
   \<and> tick (Inr 50) (True, None) None
       (runDaemon None (Some \<lparr>Threshold = 80 :: 64 word\<rparr>) [Tick (Inr 50) (True, None) None])
     = runDaemon None (Some \<lparr>Threshold = 80 :: 64 word\<rparr>) [Tick (Inr 50) (True, None) None]"
proof -
  have h: "word_of_int 50 =
     prevCapacity (runDaemon None (Some \<lparr>Threshold = 80 :: 64 word\<rparr>)
       [Tick (Inr 50) (True, None) None])"
    by (simp add: run_simps)
  from tick_skips_unchanged_capacity [OF h] h show ?thesis by blast
qed

text \<open>
  Claim C2, as stated, fails: with threshold 0 the subtraction \<^verbatim>\<open>cfg.Threshold-1\<close> wraps,
  the threshold test is false for every capacity, and a charging tick at capacity 0
  (after a tick at 1, so it is not skipped) resets the ticker to 5 minutes, not to 1
  second.
\<close>

theorem tick_at_threshold_zero_counterexample:
  "prevCapacity (runDaemon None (Some \<lparr>Threshold = 0 :: 64 word\<rparr>)
       [Tick (Inr 1) (True, None) None]) \<noteq> word_of_int 0
   \<and> (word_of_int 0 :: 64 word) = Threshold \<lparr>Threshold = 0 :: 64 word\<rparr>
   \<and> ticker (tick (Inr 0) (True, None) None
       (runDaemon None (Some \<lparr>Threshold = 0 :: 64 word\<rparr>) [Tick (Inr 1) (True, None) None]))
     = Ticking (Minute * 5)
   \<and> Minute * 5 \<noteq> Second"
  by (simp add: run_simps Minute_def Second_def)

text \<open>
  Claim C2, amended. On a tick that is not skipped, with the capacity equal to the
  configured threshold, the threshold being neither 0 nor the largest \<^verbatim>\<open>uint\<close> (so that
  neither \<^verbatim>\<open>Threshold-1\<close> nor \<^verbatim>\<open>Threshold+1\<close> wraps), and charging true: the ticker is
  reset to 1 second and then \<^verbatim>\<open>"1"\<close> is written to the control file. A failed charging
  read only adds its log line before that.
\<close>

theorem tick_charging_at_threshold:
  assumes "cfg s = Some c" and "word_of_int n \<noteq> prevCapacity s"
    and "word_of_int n = Threshold c" and "Threshold c \<noteq> 0" and "Threshold c \<noteq> - 1"
  shows "tick (Inr n) (True, cerr) write_res s =
     s\<lparr>prevCapacity := word_of_int n, ticker := Ticking Second,
       trace := trace s
         @ (case cerr of
              Some err \<Rightarrow> [Log (''Error checking battery charging status: '' @ msg err)]
            | None \<Rightarrow> [])
         @ [TickerReset Second] @ setConservationMode True write_res\<rparr>
    \<and> WriteFile conserveSetPath ''1'' \<in> set (setConservationMode True write_res)
    \<and> WriteFile conserveSetPath ''0'' \<notin> set (setConservationMode True write_res)"
  using assms setConservationMode_writes [of True write_res]
  by (simp add: tick_def inThresholdRange_Some performs_setConservationMode
      split: option.splits)

text \<open>
  Witness for the amended C2: the first tick of a daemon with threshold 80, at 80
  percent and charging.
\<close>

theorem tick_charging_at_threshold_witness:
  "cfg (runDaemon None (Some \<lparr>Threshold = 80 :: 64 word\<rparr>) []) = Some \<lparr>Threshold = 80\<rparr>
   \<and> word_of_int 80 \<noteq> prevCapacity (runDaemon None (Some \<lparr>Threshold = 80 :: 64 word\<rparr>) [])
   \<and> ticker (tick (Inr 80) (True, None) None
        (runDaemon None (Some \<lparr>Threshold = 80 :: 64 word\<rparr>) [])) = Ticking Second
   \<and> trace (tick (Inr 80) (True, None) None
        (runDaemon None (Some \<lparr>Threshold = 80 :: 64 word\<rparr>) []))
      = [NewTicker Minute, Log ''Batheart have been enabled'', TickerReset Second,
         WriteFile conserveSetPath ''1'', Log ''Changed conservation mode to: 1'']"
proof -
  let ?s = "runDaemon None (Some \<lparr>Threshold = 80 :: 64 word\<rparr>) []"
  have h1: "cfg ?s = Some \<lparr>Threshold = 80\<rparr>"
    and h2: "word_of_int 80 \<noteq> prevCapacity ?s"
    by (simp_all add: run_simps)
  have h3: "word_of_int 80 = Threshold \<lparr>Threshold = 80 :: 64 word\<rparr>"
    and h4: "Threshold \<lparr>Threshold = 80 :: 64 word\<rparr> \<noteq> 0"
    and h5: "Threshold \<lparr>Threshold = 80 :: 64 word\<rparr> \<noteq> - 1"
    by simp_all
  from tick_charging_at_threshold [OF h1 h2 h3 h4 h5, of None None]
  have "tick (Inr 80) (True, None) None ?s =
     ?s\<lparr>prevCapacity := word_of_int 80, ticker := Ticking Second,
       trace := trace ?s @ [] @ [TickerReset Second] @ setConservationMode True None\<rparr>"
    by simp
  then show ?thesis using h1 h2
    by (simp add: runDaemon_def enterDaemon_watching setConservationMode_def Let_def)
qed

text \<open>
  Claim C3, as stated, fails on a skipped tick: after a tick at 80 percent while
  charging (threshold 80), a tick at the same 80 percent with charging false leaves the
  state as it is. The ticker keeps its period of 1 second and no \<^verbatim>\<open>"0"\<close> is written.
\<close>

theorem tick_not_charging_skipped_counterexample:
  "tick (Inr 80) (False, None) None
     (runDaemon None (Some \<lparr>Threshold = 80 :: 64 word\<rparr>) [Tick (Inr 80) (True, None) None])
     = runDaemon None (Some \<lparr>Threshold = 80 :: 64 word\<rparr>) [Tick (Inr 80) (True, None) None]
   \<and> ticker (runDaemon None (Some \<lparr>Threshold = 80 :: 64 word\<rparr>)
        [Tick (Inr 80) (True, None) None]) = Ticking Second
   \<and> WriteFile conserveSetPath ''0'' \<notin>
       set (trace (runDaemon None (Some \<lparr>Threshold = 80 :: 64 word\<rparr>)
         [Tick (Inr 80) (True, None) None]))
   \<and> Second \<noteq> Minute * 5"
  by (simp add: run_simps Minute_def Second_def)

text \<open>
  Claim C3, amended. On a tick that is not skipped (the capacity is read and differs
  from \<^verbatim>\<open>prevCapacity\<close>) with charging false, for any capacity and any threshold,
  \<^verbatim>\<open>"0"\<close> is written to the control file and the ticker is then reset to 5 minutes.
\<close>

theorem tick_not_charging:
  assumes "cfg s = Some c" and "word_of_int n \<noteq> prevCapacity s"
  shows "tick (Inr n) (False, cerr) write_res s =
     s\<lparr>prevCapacity := word_of_int n, ticker := Ticking (Minute * 5),
       trace := trace s
         @ (case cerr of
              Some err \<Rightarrow> [Log (''Error checking battery charging status: '' @ msg err)]
            | None \<Rightarrow> [])
         @ setConservationMode False write_res @ [TickerReset (Minute * 5)]\<rparr>
    \<and> WriteFile conserveSetPath ''0'' \<in> set (setConservationMode False write_res)
    \<and> WriteFile conserveSetPath ''1'' \<notin> set (setConservationMode False write_res)"
  using assms setConservationMode_writes [of False write_res]
  by (simp add: tick_def inThresholdRange_Some performs_setConservationMode
      split: option.splits)

text \<open>
  Witness for the amended C3: capacity 60 after 59, threshold 80, not charging.
\<close>

theorem tick_not_charging_witness:
  "cfg (runDaemon None (Some \<lparr>Threshold = 80 :: 64 word\<rparr>) [Tick (Inr 59) (True, None) None])
     = Some \<lparr>Threshold = 80\<rparr>
   \<and> word_of_int 60 \<noteq>
       prevCapacity (runDaemon None (Some \<lparr>Threshold = 80 :: 64 word\<rparr>)
         [Tick (Inr 59) (True, None) None])
   \<and> ticker (tick (Inr 60) (False, None) None
        (runDaemon None (Some \<lparr>Threshold = 80 :: 64 word\<rparr>) [Tick (Inr 59) (True, None) None]))
      = Ticking (Minute * 5)
   \<and> WriteFile conserveSetPath ''0'' \<in> set (setConservationMode False None)"
proof -
  let ?s = "runDaemon None (Some \<lparr>Threshold = 80 :: 64 word\<rparr>) [Tick (Inr 59) (True, None) None]"
  have h1: "cfg ?s = Some \<lparr>Threshold = 80\<rparr>"
    and h2: "word_of_int 60 \<noteq> prevCapacity ?s"
    by (simp_all add: run_simps)
  from tick_not_charging [OF h1 h2, of None None]
  have "tick (Inr 60) (False, None) None ?s =
     ?s\<lparr>prevCapacity := word_of_int 60, ticker := Ticking (Minute * 5),
       trace := trace ?s @ [] @ setConservationMode False None @ [TickerReset (Minute * 5)]\<rparr>"
    and "WriteFile conserveSetPath ''0'' \<in> set (setConservationMode False None)"
    by simp_all
  then show ?thesis using h1 h2 by simp
qed

text \<open>
  Claim C4. On a tick that is not skipped, with charging true and the capacity different
  from the threshold, the ticker is reset to 5 minutes and then \<^verbatim>\<open>"1"\<close> is written to
  the control file.
\<close>

theorem tick_charging_off_threshold:
  assumes "cfg s = Some c" and "word_of_int n \<noteq> prevCapacity s"
    and "word_of_int n \<noteq> Threshold c"
  shows "tick (Inr n) (True, cerr) write_res s =
     s\<lparr>prevCapacity := word_of_int n, ticker := Ticking (Minute * 5),
       trace := trace s
         @ (case cerr of
              Some err \<Rightarrow> [Log (''Error checking battery charging status: '' @ msg err)]
            | None \<Rightarrow> [])
         @ [TickerReset (Minute * 5)] @ setConservationMode True write_res\<rparr>
    \<and> WriteFile conserveSetPath ''1'' \<in> set (setConservationMode True write_res)
    \<and> WriteFile conserveSetPath ''0'' \<notin> set (setConservationMode True write_res)"
  using assms setConservationMode_writes [of True write_res]
  by (simp add: tick_def inThresholdRange_Some performs_setConservationMode
      split: option.splits)

text \<open>
  Witness for C4: the first tick of a daemon with threshold 80, at 60 percent and
  charging.
\<close>

theorem tick_charging_off_threshold_witness:
  "cfg (runDaemon None (Some \<lparr>Threshold = 80 :: 64 word\<rparr>) []) = Some \<lparr>Threshold = 80\<rparr>
   \<and> word_of_int 60 \<noteq> prevCapacity (runDaemon None (Some \<lparr>Threshold = 80 :: 64 word\<rparr>) [])
   \<and> word_of_int 60 \<noteq> Threshold \<lparr>Threshold = 80 :: 64 word\<rparr>
   \<and> ticker (tick (Inr 60) (True, None) None
        (runDaemon None (Some \<lparr>Threshold = 80 :: 64 word\<rparr>) [])) = Ticking (Minute * 5)
   \<and> trace (tick (Inr 60) (True, None) None
        (runDaemon None (Some \<lparr>Threshold = 80 :: 64 word\<rparr>) []))
      = [NewTicker Minute, Log ''Batheart have been enabled'', TickerReset (Minute * 5),
         WriteFile conserveSetPath ''1'', Log ''Changed conservation mode to: 1'']"
proof -
  let ?s = "runDaemon None (Some \<lparr>Threshold = 80 :: 64 word\<rparr>) []"
  have h1: "cfg ?s = Some \<lparr>Threshold = 80\<rparr>"
    and h2: "word_of_int 60 \<noteq> prevCapacity ?s"
    by (simp_all add: run_simps)
  have h3: "word_of_int 60 \<noteq> Threshold \<lparr>Threshold = 80 :: 64 word\<rparr>"
    by simp
  from tick_charging_off_threshold [OF h1 h2 h3, of None None]
  have "tick (Inr 60) (True, None) None ?s =
     ?s\<lparr>prevCapacity := word_of_int 60, ticker := Ticking (Minute * 5),
       trace := trace ?s @ [] @ [TickerReset (Minute * 5)] @ setConservationMode True None\<rparr>"
    by simp
  then show ?thesis using h1 h2 h3
    by (simp add: runDaemon_def enterDaemon_watching setConservationMode_def Let_def)
qed

subsection \<open>The threshold test\<close>

text \<open>
  Claim C5, as stated, fails at the largest threshold: there \<^verbatim>\<open>cfg.Threshold+1\<close> wraps to
  0, no capacity is below it, and the test is false although the capacity equals the
  threshold (shown at 64 bits, \<open>2 ^ 64 - 1 = 18446744073709551615\<close>).
\<close>

theorem inThresholdRange_largest_threshold_counterexample:
  "(1 :: 64 word) \<le> Threshold \<lparr>Threshold = 18446744073709551615 :: 64 word\<rparr>
   \<and> inThresholdRange (18446744073709551615 :: 64 word)
        (Some \<lparr>Threshold = 18446744073709551615\<rparr>) = Inr False"
  by (simp add: inThresholdRange_def)

text \<open>
  Claim C5, amended. For every threshold from 1 up to, but not including, the largest
  \<^verbatim>\<open>uint\<close> value, and every capacity, \<^verbatim>\<open>inThresholdRange\<close> returns true if and only if the
  capacity equals the threshold.
\<close>

theorem inThresholdRange_exact_match:
  assumes "1 \<le> Threshold c" and "Threshold c \<noteq> - 1"
  shows "inThresholdRange capacity (Some c) = Inr (capacity = Threshold c)"
proof -
  from assms(1) have "Threshold c \<noteq> 0"
    by auto
  with assms(2) show ?thesis
    by (simp add: inThresholdRange_Some)
qed

text \<open>
  Witness for the amended C5: threshold 80 at 64 bits, at the capacities 79, 80 and 81.
\<close>

theorem inThresholdRange_exact_match_witness:
  "(1 :: 64 word) \<le> Threshold \<lparr>Threshold = 80 :: 64 word\<rparr>
   \<and> Threshold \<lparr>Threshold = 80 :: 64 word\<rparr> \<noteq> - 1
   \<and> inThresholdRange 80 (Some \<lparr>Threshold = 80 :: 64 word\<rparr>) = Inr True
   \<and> inThresholdRange 79 (Some \<lparr>Threshold = 80 :: 64 word\<rparr>) = Inr False
   \<and> inThresholdRange 81 (Some \<lparr>Threshold = 80 :: 64 word\<rparr>) = Inr False"
proof -
  have h1: "(1 :: 64 word) \<le> Threshold \<lparr>Threshold = 80 :: 64 word\<rparr>"
    and h2: "Threshold \<lparr>Threshold = 80 :: 64 word\<rparr> \<noteq> - 1"
    by simp_all
  from inThresholdRange_exact_match [OF h1 h2, of 80]
    inThresholdRange_exact_match [OF h1 h2, of 79]
    inThresholdRange_exact_match [OF h1 h2, of 81] h1 h2
  show ?thesis by simp
qed

text \<open>
  Claim C6. With threshold 0 the test does not panic (the result is a value, \<open>Inr\<close>):
  \<^verbatim>\<open>cfg.Threshold-1\<close> wraps to the largest value of the type, \<open>2 ^ w - 1\<close> at width \<open>w\<close>, no
  capacity is above it, and \<^verbatim>\<open>inThresholdRange\<close> returns false. This holds for every
  capacity, those from 0 to 100 among them.
\<close>

theorem inThresholdRange_threshold_zero:
  fixes capacity :: "'w::len word"
  shows "unat (Threshold \<lparr>Threshold = 0 :: 'w word\<rparr> - 1) = 2 ^ LENGTH('w) - 1
    \<and> \<not> capacity > Threshold \<lparr>Threshold = 0 :: 'w word\<rparr> - 1
    \<and> inThresholdRange capacity (Some \<lparr>Threshold = 0\<rparr>) = Inr False"
  by (simp add: inThresholdRange_Some unsigned_minus_1_eq_mask mask_eq_exp_minus_1)

subsection \<open>Failures\<close>

text \<open>
  Claim C7. When reading the capacity fails, the tick logs the error and does nothing
  else: the state changes only by that log line (so no write to the control file, no
  reset of the ticker, \<^verbatim>\<open>prevCapacity\<close> as before), and a running loop goes on with the
  events that follow.
\<close>

theorem tick_read_error_aborts_cycle:
  "tick (Inl err) charging_res write_res s =
     s\<lparr>trace := trace s @ [Log (''Error reading battery capacity: '' @ msg err)]\<rparr>
   \<and> (status s = Running \<longrightarrow>
        loop (Tick (Inl err) charging_res write_res # es) s =
        loop es (s\<lparr>trace := trace s @ [Log (''Error reading battery capacity: '' @ msg err)]\<rparr>))"
  by (simp add: tick_def)

text \<open>
  Witness for C7: the first tick fails to read the battery, then a signal arrives.
\<close>

theorem tick_read_error_aborts_cycle_witness:
  "status (enterDaemon None (Some \<lparr>Threshold = 80 :: 64 word\<rparr>)) = Running
   \<and> trace (loop [Tick (Inl \<lparr>is_not_exist = False, msg = ''no battery''\<rparr>) (True, None) None,
                 Signal]
        (enterDaemon None (Some \<lparr>Threshold = 80 :: 64 word\<rparr>)))
     = [NewTicker Minute, Log ''Batheart have been enabled'',
        Log ''Error reading battery capacity: no battery'',
        Log ''Batheart has been shut down'', TickerStop]"
proof -
  let ?s = "enterDaemon None (Some \<lparr>Threshold = 80 :: 64 word\<rparr>)"
  have h: "status ?s = Running"
    by (simp add: enterDaemon_watching)
  from tick_read_error_aborts_cycle
    [of "\<lparr>is_not_exist = False, msg = ''no battery''\<rparr>" "(True, None)" None ?s "[Signal]"] h
  have "loop [Tick (Inl \<lparr>is_not_exist = False, msg = ''no battery''\<rparr>) (True, None) None, Signal] ?s
    = loop [Signal]
       (?s\<lparr>trace := trace ?s @ [Log (''Error reading battery capacity: '' @ ''no battery'')]\<rparr>)"
    by simp
  then show ?thesis using h
    by (simp add: enterDaemon_watching returnFrom_def performs_def perform_def)
qed

text \<open>
  Claim C8 does not hold of the code; the code is at fault. In the watch callback a
  failed re-parse either ends the process or silently resets the configuration, while
  the sibling branch for a watcher error logs and keeps the configuration:
  \<^item> when \<^verbatim>\<open>k.Unmarshal\<close> fails, \<^verbatim>\<open>parseConfig\<close> calls \<^verbatim>\<open>logCfgIssue\<close>, that is
    \<^verbatim>\<open>log.Fatalf\<close>, and the process exits with status 1 (the deferred calls do not run);
  \<^item> when \<^verbatim>\<open>k.Load\<close> fails, the handler \<^verbatim>\<open>func(err error) bool { return true }\<close> drops the
    error unlogged, and whatever \<^verbatim>\<open>k.Unmarshal\<close> then leaves in the fresh \<^verbatim>\<open>cfg\<close> replaces
    the configuration; unmarshalling the empty koanf instance made just before leaves
    the zero value, threshold 0.
  Both are evaluated on a daemon started with threshold 80.
\<close>

theorem reload_failure_exits_or_resets:
  "status (runDaemon None (Some \<lparr>Threshold = 80 :: 64 word\<rparr>)
      [ConfigWatch None None (Inl \<lparr>is_not_exist = False, msg = ''cannot parse threshold''\<rparr>)])
     = Exited
   \<and> trace (runDaemon None (Some \<lparr>Threshold = 80 :: 64 word\<rparr>)
      [ConfigWatch None None (Inl \<lparr>is_not_exist = False, msg = ''cannot parse threshold''\<rparr>)])
     = [NewTicker Minute, Log ''Batheart have been enabled'', Log ''Config changed, reloading!'',
        Log ''Config issue, can't parse ----> cannot parse threshold'', Exit 1]
   \<and> runDaemon None (Some \<lparr>Threshold = 80 :: 64 word\<rparr>)
      [ConfigWatch None (Some \<lparr>is_not_exist = False, msg = ''toml: expected value''\<rparr>)
         (Inr \<lparr>Threshold = 0\<rparr>)]
     = \<lparr>cfg = Some \<lparr>Threshold = 0\<rparr>, prevCapacity = 0, ticker = Ticking Minute,
        defers = [Log ''Batheart has been shut down'', TickerStop],
        trace = [NewTicker Minute, Log ''Batheart have been enabled'',
                 Log ''Config changed, reloading!''],
        status = Running\<rparr>"
  by (simp add: runDaemon_def enterDaemon_watching watchCallback_def parseConfig_accepting
      performs_def perform_def)

subsection \<open>Shutdown\<close>

text \<open>
  Claim C9, as stated, fails twice. When \<^verbatim>\<open>provider.Watch\<close> fails, \<^verbatim>\<open>runDaemon\<close> returns
  before the ticker exists and before anything is deferred: it logs the watch error and
  neither stops a timer nor prints the shutdown line. When a signal arrives, the deferred
  calls run last deferred first: the shutdown line is printed before the ticker is
  stopped, not after.
\<close>

theorem runDaemon_shutdown_counterexample:
  "status (runDaemon (Some \<lparr>is_not_exist = False, msg = ''too many open files''\<rparr>)
      (Some \<lparr>Threshold = 80 :: 64 word\<rparr>) []) = Returned
   \<and> trace (runDaemon (Some \<lparr>is_not_exist = False, msg = ''too many open files''\<rparr>)
      (Some \<lparr>Threshold = 80 :: 64 word\<rparr>) [])
     = [Log ''Config watch error: too many open files'']
   \<and> status (runDaemon None (Some \<lparr>Threshold = 80 :: 64 word\<rparr>) [Signal]) = Returned
   \<and> trace (runDaemon None (Some \<lparr>Threshold = 80 :: 64 word\<rparr>) [Signal])
     = [NewTicker Minute, Log ''Batheart have been enabled'',
        Log ''Batheart has been shut down'', TickerStop]"
  by (simp add: run_simps)

text \<open>
  Claim C9, amended. Whenever \<^verbatim>\<open>runDaemon\<close> returns after a successful watch
  registration (which it does on a signal only), its effects end with the shutdown log
  line followed by the stop of the ticker, and neither occurs earlier: each happens
  exactly once, the log line first. When the watch registration fails, \<^verbatim>\<open>runDaemon\<close>
  returns having logged the watch error and nothing else: no ticker was created, none is
  stopped, and the shutdown line is not printed.
\<close>

theorem runDaemon_return_paths:
  "(status (runDaemon None cfg0 events) = Returned \<longrightarrow>
      (\<exists>pre. trace (runDaemon None cfg0 events) =
                pre @ [Log ''Batheart has been shut down'', TickerStop]
         \<and> TickerStop \<notin> set pre \<and> Log ''Batheart has been shut down'' \<notin> set pre))
   \<and> runDaemon (Some err) cfg0 events =
       \<lparr>cfg = cfg0, prevCapacity = 0, ticker = NoTicker, defers = [],
        trace = [Log (''Config watch error: '' @ msg err)], status = Returned\<rparr>"
proof
  have "shutdown_pending (enterDaemon None cfg0)" and "status (enterDaemon None cfg0) = Running"
    by (simp_all add: enterDaemon_watching shutdown_pending_def)
  then show "status (runDaemon None cfg0 events) = Returned \<longrightarrow>
      (\<exists>pre. trace (runDaemon None cfg0 events) =
                pre @ [Log ''Batheart has been shut down'', TickerStop]
         \<and> TickerStop \<notin> set pre \<and> Log ''Batheart has been shut down'' \<notin> set pre)"
    unfolding runDaemon_def using loop_returns_after_shutdown by blast
next
  show "runDaemon (Some err) cfg0 events =
       \<lparr>cfg = cfg0, prevCapacity = 0, ticker = NoTicker, defers = [],
        trace = [Log (''Config watch error: '' @ msg err)], status = Returned\<rparr>"
    by (simp add: runDaemon_def enterDaemon_watch_failed loop_stopped)
qed

text \<open>
  Witness for the amended C9: one tick at 80 percent while charging, then a signal.
\<close>

theorem runDaemon_return_paths_witness:
  "status (runDaemon None (Some \<lparr>Threshold = 80 :: 64 word\<rparr>)
      [Tick (Inr 80) (True, None) None, Signal]) = Returned
   \<and> (\<exists>pre. trace (runDaemon None (Some \<lparr>Threshold = 80 :: 64 word\<rparr>)
               [Tick (Inr 80) (True, None) None, Signal])
             = pre @ [Log ''Batheart has been shut down'', TickerStop]
         \<and> TickerStop \<notin> set pre \<and> Log ''Batheart has been shut down'' \<notin> set pre)"
proof -
  have h: "status (runDaemon None (Some \<lparr>Threshold = 80 :: 64 word\<rparr>)
      [Tick (Inr 80) (True, None) None, Signal]) = Returned"
    by (simp add: run_simps)
  from runDaemon_return_paths
    [of "Some \<lparr>Threshold = 80 :: 64 word\<rparr>" "[Tick (Inr 80) (True, None) None, Signal]"] h
  show ?thesis by blast
qed

subsection \<open>Start-up\<close>

text \<open>
  Claim C10. Whenever the start-up code gets as far as calling \<^verbatim>\<open>runDaemon\<close>, the
  configuration pointer it passes is not nil; where it does not get that far, the process
  has exited through \<^verbatim>\<open>os.Exit(1)\<close> of the fatal logger. The watch callback keeps the
  pointer non-nil as well, so no run of the program, whatever the environment answers
  and whatever events arrive, panics on the dereference in \<^verbatim>\<open>inThresholdRange\<close>.
\<close>

theorem config_never_nil:
  "(\<forall>t p. loadConfig env = (t, Some p) \<longrightarrow> p \<noteq> None)
   \<and> (\<forall>t. loadConfig env = (t, None) \<longrightarrow> t \<noteq> [] \<and> last t = Exit 1)
   \<and> snd (Execute env events) \<noteq> Panicked"
proof (intro conjI)
  show "\<forall>t p. loadConfig env = (t, Some p) \<longrightarrow> p \<noteq> None"
  proof (intro allI impI)
    fix t p
    assume "loadConfig env = (t, Some p)"
    then show "p \<noteq> None"
      using loadConfig_not_nil [of env t] by auto
  qed
next
  show "\<forall>t. loadConfig env = (t, None) \<longrightarrow> t \<noteq> [] \<and> last t = Exit 1"
    using loadConfig_exits by blast
next
  obtain t r where l: "loadConfig env = (t, r)" by (cases "loadConfig env")
  show "snd (Execute env events) \<noteq> Panicked"
  proof (cases r)
    case None
    with l show ?thesis by (simp add: Execute_def)
  next
    case (Some p)
    with l loadConfig_not_nil [of env t] have p: "p \<noteq> None" by auto
    have "status (enterDaemon (provider_Watch env) p) \<noteq> Panicked"
      by (cases "provider_Watch env")
        (simp_all add: enterDaemon_watching enterDaemon_watch_failed)
    moreover have "cfg (enterDaemon (provider_Watch env) p) \<noteq> None"
      using p
      by (cases "provider_Watch env")
        (simp_all add: enterDaemon_watching enterDaemon_watch_failed)
    ultimately have "status (runDaemon (provider_Watch env) p events) \<noteq> Panicked"
      unfolding runDaemon_def by (rule loop_never_panics [rotated])
    with l Some show ?thesis by (simp add: Execute_def Let_def)
  qed
qed

text \<open>
  Witness for C10: a first start without a configuration file, where the directory and
  the default file are created and the configuration that is passed on is not nil; and
  a start with an unreadable file, where the process exits in the fatal logger.
\<close>

theorem config_never_nil_witness:
  "loadConfig
     \<lparr>os_UserConfigDir = Inr ''/home/u/.config'',
      k_Load = Some \<lparr>is_not_exist = True, msg = ''no such file or directory''\<rparr>,
      os_MkdirAll = None, k_Marshal = Inr ''threshold = 80'', os_WriteFile = None,
      k_Unmarshal = Inr \<lparr>Threshold = 80 :: 64 word\<rparr>, provider_Watch = None\<rparr>
   = ([MkdirAll ''/home/u/.config/batheart'',
       WriteFile ''/home/u/.config/batheart/config.toml'' ''threshold = 80''],
      Some (Some \<lparr>Threshold = 80\<rparr>))
   \<and> Some \<lparr>Threshold = 80 :: 64 word\<rparr> \<noteq> None
   \<and> snd (Execute
       \<lparr>os_UserConfigDir = Inr ''/home/u/.config'',
        k_Load = Some \<lparr>is_not_exist = True, msg = ''no such file or directory''\<rparr>,
        os_MkdirAll = None, k_Marshal = Inr ''threshold = 80'', os_WriteFile = None,
        k_Unmarshal = Inr \<lparr>Threshold = 80 :: 64 word\<rparr>, provider_Watch = None\<rparr>
       [Tick (Inr 80) (True, None) None, Signal]) \<noteq> Panicked
   \<and> loadConfig
     \<lparr>os_UserConfigDir = Inr ''/home/u/.config'',
      k_Load = Some \<lparr>is_not_exist = False, msg = ''permission denied''\<rparr>,
      os_MkdirAll = None, k_Marshal = Inr ''threshold = 80'', os_WriteFile = None,
      k_Unmarshal = Inr \<lparr>Threshold = 0 :: 64 word\<rparr>, provider_Watch = None\<rparr>
   = ([Log ''Config issue, can't load ----> permission denied'', Exit 1], None)
   \<and> last [Log ''Config issue, can't load ----> permission denied'', Exit 1] = Exit 1"
proof -
  let ?env = "\<lparr>os_UserConfigDir = Inr ''/home/u/.config'',
      k_Load = Some \<lparr>is_not_exist = True, msg = ''no such file or directory''\<rparr>,
      os_MkdirAll = None, k_Marshal = Inr ''threshold = 80'', os_WriteFile = None,
      k_Unmarshal = Inr \<lparr>Threshold = 80 :: 64 word\<rparr>, provider_Watch = None\<rparr>"
  let ?bad = "\<lparr>os_UserConfigDir = Inr ''/home/u/.config'',
      k_Load = Some \<lparr>is_not_exist = False, msg = ''permission denied''\<rparr>,
      os_MkdirAll = None, k_Marshal = Inr ''threshold = 80'', os_WriteFile = None,
      k_Unmarshal = Inr \<lparr>Threshold = 0 :: 64 word\<rparr>, provider_Watch = None\<rparr>"
  have h: "loadConfig ?env
    = ([MkdirAll ''/home/u/.config/batheart'',
        WriteFile ''/home/u/.config/batheart/config.toml'' ''threshold = 80''],
       Some (Some \<lparr>Threshold = 80\<rparr>))"
    by (simp add: loadConfig_def parseConfig_def handleConfigError_def acquireConfig_def
        createConfigDir_def createConfigFile_def bind_proc_def ret_def filepath_Join_def)
  have b: "loadConfig ?bad
    = ([Log ''Config issue, can't load ----> permission denied'', Exit 1], None)"
    by (simp add: loadConfig_def parseConfig_def handleConfigError_def bind_proc_def ret_def
        logCfgIssue_def filepath_Join_def)
  from config_never_nil [of ?env "[Tick (Inr 80) (True, None) None, Signal]"]
    config_never_nil [of ?bad "[]"] h b
  show ?thesis by blast
qed

end
